theory Spec2Isabelle
  imports Main "HOL-Library.Sublist"
begin

section \<open>Go string helpers called by doParseTunnelConfig\<close>

text \<open>
  Go strings are byte sequences (UTF-8 for text), so a string is a \<^typ>\<open>char list\<close>
  of bytes. \<open>strings.TrimSpace\<close> removes the leading and the trailing white space
  runes, as \<open>unicode.IsSpace\<close> defines them; the list below holds the UTF-8 encoding
  of each: the six ASCII ones, U+0085, U+00A0, U+1680, U+2000 to U+200A, U+2028, U+2029,
  U+202F, U+205F and U+3000.
\<close>

definition whiteSpace :: "string list" where
  "whiteSpace =
     [[CHR 0x09], [CHR 0x0A], [CHR 0x0B], [CHR 0x0C], [CHR 0x0D], [CHR 0x20],
      [CHR 0xC2, CHR 0x85], [CHR 0xC2, CHR 0xA0],
      [CHR 0xE1, CHR 0x9A, CHR 0x80],
      [CHR 0xE2, CHR 0x80, CHR 0x80], [CHR 0xE2, CHR 0x80, CHR 0x81],
      [CHR 0xE2, CHR 0x80, CHR 0x82], [CHR 0xE2, CHR 0x80, CHR 0x83],
      [CHR 0xE2, CHR 0x80, CHR 0x84], [CHR 0xE2, CHR 0x80, CHR 0x85],
      [CHR 0xE2, CHR 0x80, CHR 0x86], [CHR 0xE2, CHR 0x80, CHR 0x87],
      [CHR 0xE2, CHR 0x80, CHR 0x88], [CHR 0xE2, CHR 0x80, CHR 0x89],
      [CHR 0xE2, CHR 0x80, CHR 0x8A],
      [CHR 0xE2, CHR 0x80, CHR 0xA8], [CHR 0xE2, CHR 0x80, CHR 0xA9],
      [CHR 0xE2, CHR 0x80, CHR 0xAF],
      [CHR 0xE2, CHR 0x81, CHR 0x9F],
      [CHR 0xE3, CHR 0x80, CHR 0x80]]"

text \<open>The encoding of the white space rune a string starts with, and ends with.\<close>

definition leadingSpace :: "string \<Rightarrow> string option" where
  "leadingSpace s = find (\<lambda>w. prefix w s) whiteSpace"

definition trailingSpace :: "string \<Rightarrow> string option" where
  "trailingSpace s = find (\<lambda>w. suffix w s) whiteSpace"

lemma whiteSpace_nonempty: "w \<in> set whiteSpace \<Longrightarrow> w \<noteq> []"
  by (auto simp: whiteSpace_def)

lemma find_SomeD: "find P xs = Some x \<Longrightarrow> x \<in> set xs \<and> P x"
  by (induction xs) (auto split: if_splits)

lemma leadingSpace_Some: "leadingSpace s = Some w \<Longrightarrow> w \<noteq> [] \<and> prefix w s"
  unfolding leadingSpace_def
  by (drule find_SomeD) (simp add: whiteSpace_nonempty)

lemma trailingSpace_Some: "trailingSpace s = Some w \<Longrightarrow> w \<noteq> [] \<and> suffix w s"
  unfolding trailingSpace_def
  by (drule find_SomeD) (simp add: whiteSpace_nonempty)

function TrimLeft :: "string \<Rightarrow> string" where
  "TrimLeft s =
     (case leadingSpace s of
        None \<Rightarrow> s
      | Some w \<Rightarrow> TrimLeft (drop (length w) s))"
  by pat_completeness auto
termination
proof (relation "measure length")
  show "wf (measure length)" by simp
next
  fix s w
  assume "leadingSpace s = Some w"
  then have "w \<noteq> []" and "prefix w s"
    using leadingSpace_Some by blast+
  then have "length w \<le> length s" and "0 < length w"
    by (simp_all add: prefix_length_le)
  then show "(drop (length w) s, s) \<in> measure length"
    by (cases w; cases s; simp)
qed

function TrimRight :: "string \<Rightarrow> string" where
  "TrimRight s =
     (case trailingSpace s of
        None \<Rightarrow> s
      | Some w \<Rightarrow> TrimRight (take (length s - length w) s))"
  by pat_completeness auto
termination
proof (relation "measure length")
  show "wf (measure length)" by simp
next
  fix s w
  assume "trailingSpace s = Some w"
  then have "w \<noteq> []" and "suffix w s"
    using trailingSpace_Some by blast+
  then have "length w \<le> length s" and "0 < length w"
    by (simp_all add: suffix_length_le)
  then show "(take (length s - length w) s, s) \<in> measure length"
    by (cases w; cases s; simp)
qed

declare TrimLeft.simps [simp del] TrimRight.simps [simp del]

definition TrimSpace :: "string \<Rightarrow> string" where
  "TrimSpace s = TrimRight (TrimLeft s)"

text \<open>
  \<open>strings.ReplaceAll(s, old, new)\<close> for a non-empty \<open>old\<close>, the only way the
  parser calls it: the occurrences of \<open>old\<close> are replaced from left to right, without
  overlap. (Go's rule for an empty \<open>old\<close> is not used by the parser and has no equation.)
\<close>

fun ReplaceAll :: "string \<Rightarrow> string \<Rightarrow> string \<Rightarrow> string" where
  "ReplaceAll [] (a # as) new = []"
| "ReplaceAll (c # cs) (a # as) new =
     (if prefix (a # as) (c # cs)
      then new @ ReplaceAll (drop (length as) cs) (a # as) new
      else c # ReplaceAll cs (a # as) new)"

definition HasPrefix :: "string \<Rightarrow> string \<Rightarrow> bool" where
  "HasPrefix s p \<longleftrightarrow> prefix p s"

section \<open>Data of parse.go\<close>

text \<open>
  The request the input is decoded into (\<open>parseTunnelConfigRequest\<close>): the
  \<open>transport\<close> subtree, kept as a \<open>yaml.Node\<close>, and the provider's error, a pointer
  that stays nil (\<open>None\<close>) when the document has none. The type of the nodes is the
  library's and is left open (\<open>'node\<close>).
\<close>

record providerError =
  Message :: string
  Details :: string

record 'node parseTunnelConfigRequest =
  Transport :: 'node
  Error :: "providerError option"

text \<open>\<open>legacyShadowsocksConfig\<close>; a Go \<open>uint\<close>, on which no arithmetic is done, is a \<^typ>\<open>nat\<close>.\<close>

record legacyShadowsocksConfig =
  Server :: string
  ServerPort :: nat
  Method :: string
  Password :: string
  Prefix :: string

record tunnelConfigJson =
  FirstHop :: string
  Transport :: string

text \<open>
  Modelled from the spec: the error codes of package \<open>platerrors\<close>, whose declarations
  are not among the sources. The spec names the enum
  \<open>{InvalidConfig, ProviderError, InternalError, ...}\<close>; Go declares the codes as
  strings, so every other code, the empty one included, is \<open>OtherCode\<close>.
\<close>

datatype ErrorCode = InvalidConfig | ProviderError | InternalError | OtherCode string

text \<open>A value of Go's \<open>any\<close> in the details of an error: a string, or something else.\<close>

datatype any = AnyString string | AnyOther nat

text \<open>
  \<open>platerrors.PlatformError\<close>, with the fields parse.go sets; a nil \<open>Details\<close> map is
  \<open>None\<close>. \<open>InvokeMethodResult\<close> has both fields, as the Go struct has: \<open>Value\<close> is
  the empty string and \<open>Error\<close> is nil unless set.
\<close>

record PlatformError =
  Code :: ErrorCode
  Message :: string
  Details :: "(string \<rightharpoonup> any) option"

record InvokeMethodResult =
  Value :: string
  Error :: "PlatformError option"

text \<open>
  What \<open>NewClient\<close> hands back on success, reduced to what is read from it:
  \<open>Client.sd.ConnectionProviderInfo.FirstHop\<close> and
  \<open>Client.pl.ConnectionProviderInfo.FirstHop\<close>.
\<close>

record Client =
  sd_FirstHop :: string
  pl_FirstHop :: string

section \<open>The collaborators\<close>

text \<open>
  Everything doParseTunnelConfig calls outside parse.go is a parameter: the two uses of
  \<open>yaml.Unmarshal\<close> (into the request and into the legacy config), the two uses of
  \<open>yaml.Marshal\<close>, \<open>yaml.Node.IsZero\<close>, \<open>NewClient\<close> and \<open>json.Marshal\<close>. A call
  that can fail returns \<open>Inl\<close> with the error: its text for the libraries, the
  \<open>PlatformError\<close> for \<open>NewClient\<close> (whose result holds either an error or a client).
\<close>

record 'node library =
  yamlUnmarshalRequest :: "string \<Rightarrow> string + 'node parseTunnelConfigRequest"
  yamlUnmarshalLegacy :: "string \<Rightarrow> string + legacyShadowsocksConfig"
  yamlMarshalLegacy :: "legacyShadowsocksConfig \<Rightarrow> string + string"
  yamlMarshalNode :: "'node \<Rightarrow> string + string"
  IsZero :: "'node \<Rightarrow> bool"
  NewClient :: "string \<Rightarrow> PlatformError + Client"
  jsonMarshal :: "tunnelConfigJson \<Rightarrow> string + string"

text \<open>The calls made to the collaborators, in the order they are made.\<close>

datatype 'node call =
    YamlUnmarshalRequest string
  | YamlUnmarshalLegacy string
  | YamlMarshalLegacy legacyShadowsocksConfig
  | YamlMarshalNode 'node
  | NewClientCall string
  | JsonMarshal tunnelConfigJson

fun isYamlCall :: "'node call \<Rightarrow> bool" where
  "isYamlCall (NewClientCall text) = False"
| "isYamlCall (JsonMarshal r) = False"
| "isYamlCall c = True"

section \<open>doParseTunnelConfig\<close>

text \<open>An \<open>InvokeMethodResult\<close> that holds only an error with a code and a message.\<close>

definition failure :: "ErrorCode \<Rightarrow> string \<Rightarrow> InvokeMethodResult" where
  "failure c m =
     \<lparr>Value = [], Error = Some \<lparr>Code = c, Message = m, Details = None\<rparr>\<rparr>"

text \<open>Lines 74 to 86: the provider's error, its details only when they are not empty.\<close>

definition providerFailure :: "providerError \<Rightarrow> InvokeMethodResult" where
  "providerFailure e =
     \<lparr>Value = [],
      Error = Some \<lparr>Code = ProviderError, Message = providerError.Message e,
        Details = (if providerError.Details e \<noteq> []
                   then Some [''details'' \<mapsto> AnyString (providerError.Details e)]
                   else None)\<rparr>\<rparr>"

text \<open>Lines 104 to 112: the result of \<open>yaml.Marshal\<close> becomes the transport text.\<close>

definition normalized ::
  "'node call list \<Rightarrow> string + string \<Rightarrow> 'node call list \<times> (InvokeMethodResult + string)" where
  "normalized calls r =
     (case r of
        Inl err \<Rightarrow> (calls, Inl (failure InvalidConfig (''failed normalize config: '' @ err)))
      | Inr transportConfigBytes \<Rightarrow> (calls, Inr transportConfigBytes))"

text \<open>
  Lines 49 to 113: the value of \<open>transportConfigText\<close> (\<open>Inr\<close>), or the result the
  function returns early with (\<open>Inl\<close>), and the calls made so far.
\<close>

definition transportConfigText ::
  "'node library \<Rightarrow> string \<Rightarrow> 'node call list \<times> (InvokeMethodResult + string)" where
  "transportConfigText L input0 =
     (let input = ReplaceAll (TrimSpace input0) [CHR 0x5C, CHR ''/''] ''/'' in
      if HasPrefix input ''ss://'' then ([], Inr input)
      else
        case yamlUnmarshalRequest L input of
          Inl err \<Rightarrow>
            ([YamlUnmarshalRequest input],
             Inl (failure InvalidConfig (''failed to parse: '' @ err)))
        | Inr tunnelConfig \<Rightarrow>
            (case parseTunnelConfigRequest.Error tunnelConfig of
               Some e \<Rightarrow> ([YamlUnmarshalRequest input], Inl (providerFailure e))
             | None \<Rightarrow>
                 if IsZero L (parseTunnelConfigRequest.Transport tunnelConfig) then
                   (case yamlUnmarshalLegacy L input of
                      Inl err \<Rightarrow>
                        ([YamlUnmarshalRequest input, YamlUnmarshalLegacy input],
                         Inl (failure InvalidConfig (''failed to parse: '' @ err)))
                    | Inr legacyConfig \<Rightarrow>
                        normalized
                          [YamlUnmarshalRequest input, YamlUnmarshalLegacy input,
                           YamlMarshalLegacy legacyConfig]
                          (yamlMarshalLegacy L legacyConfig))
                 else
                   normalized
                     [YamlUnmarshalRequest input,
                      YamlMarshalNode (parseTunnelConfigRequest.Transport tunnelConfig)]
                     (yamlMarshalNode L (parseTunnelConfigRequest.Transport tunnelConfig))))"

text \<open>Lines 122 to 125: the response, with the first hop only when both hops agree.\<close>

definition response :: "Client \<Rightarrow> string \<Rightarrow> tunnelConfigJson" where
  "response client text =
     \<lparr>FirstHop = (if sd_FirstHop client = pl_FirstHop client then sd_FirstHop client else []),
      Transport = text\<rparr>"

text \<open>Lines 114 to 138: the client is built from the transport text and the response serialized.\<close>

definition validate :: "'node library \<Rightarrow> string \<Rightarrow> 'node call list \<times> InvokeMethodResult" where
  "validate L text =
     (case NewClient L text of
        Inl e \<Rightarrow> ([NewClientCall text], \<lparr>Value = [], Error = Some e\<rparr>)
      | Inr client \<Rightarrow>
          ([NewClientCall text, JsonMarshal (response client text)],
           case jsonMarshal L (response client text) of
             Inl err \<Rightarrow> failure InternalError (''failed to serialize JSON response: '' @ err)
           | Inr responseBytes \<Rightarrow> \<lparr>Value = responseBytes, Error = None\<rparr>))"

definition doParseTunnelConfig ::
  "'node library \<Rightarrow> string \<Rightarrow> 'node call list \<times> InvokeMethodResult" where
  "doParseTunnelConfig L input =
     (case transportConfigText L input of
        (calls, Inl early) \<Rightarrow> (calls, early)
      | (calls, Inr text) \<Rightarrow> (calls @ fst (validate L text), snd (validate L text)))"

section \<open>Documents and nodes\<close>

text \<open>
  Modelled from the spec: the \<open>transport\<close> node of a parsed document, "an opaque
  structured subtree" that may use "a node-reuse/alias mechanism". It stands for
  \<open>yaml.Node\<close> of gopkg.in/yaml.v3, which is not among the sources: a scalar, a mapping
  or a sequence, a node that carries an anchor (\<open>&name\<close>) or an alias (\<open>*name\<close>) of
  an anchored node; \<open>Zero\<close> is the value of a node that was never set, the one
  \<open>IsZero\<close> answers true on.
\<close>

datatype Node =
    Zero
  | Scalar string
  | Mapping "(string \<times> Node) list"
  | Sequence "Node list"
  | Anchored string Node
  | Alias string

section \<open>An example library\<close>

text \<open>
  A library that answers on a few documents as the real collaborators do on the inputs
  of parse\_test.go, and with an error everywhere else. The theorems below are about
  every library; this one gives them concrete inputs.
\<close>

definition joinLines :: "string list \<Rightarrow> string" where
  "joinLines ls = concat (map (\<lambda>l. l @ [CHR 0x0A]) ls)"

definition legacyJson :: string where
  \<open>legacyJson = ''{"server": "example.com", "server_port": 4321, "method": "chacha20-ietf-poly1305", "password": "SECRET", "prefix": "POST "}''\<close>

definition legacyExample :: legacyShadowsocksConfig where
  "legacyExample =
     \<lparr>Server = ''example.com'', ServerPort = 4321, Method = ''chacha20-ietf-poly1305'',
      Password = ''SECRET'', Prefix = ''POST ''\<rparr>"

definition legacyZero :: legacyShadowsocksConfig where
  "legacyZero = \<lparr>Server = [], ServerPort = 0, Method = [], Password = [], Prefix = []\<rparr>"

definition legacyText :: string where
  "legacyText =
     joinLines [''server: example.com'', ''server_port: 4321'',
       ''method: chacha20-ietf-poly1305'', ''password: SECRET'',
       ''prefix: '' @ [CHR 0x27] @ ''POST '' @ [CHR 0x27]]"

text \<open>The value that Test\_doParseTunnelConfigLegacyJson expects.\<close>

definition legacyValue :: string where
  \<open>legacyValue =
     ''{"firstHop":"example.com:4321","transport":"server: example.com'' @ CHR 0x5C #
     ''nserver_port: 4321'' @ CHR 0x5C # ''nmethod: chacha20-ietf-poly1305'' @ CHR 0x5C #
     ''npassword: SECRET'' @ CHR 0x5C # ''nprefix: '' @ CHR 0x27 # ''POST '' @ CHR 0x27 #
     CHR 0x5C # ''n"}''\<close>

text \<open>What the serializer gives for the legacy config with no field set.\<close>

definition legacyZeroText :: string where
  \<open>legacyZeroText =
     joinLines [''server: ""'', ''server_port: 0'', ''method: ""'', ''password: ""'',
       ''prefix: ""'']\<close>

text \<open>An access key as a link, with escaped slashes and white space around it.\<close>

definition uriInput :: string where
  "uriInput =
     ''  ss:'' @ [CHR 0x5C, CHR ''/'', CHR 0x5C, CHR ''/''] @
     ''Y2hhY2hhMjA6U0VDUkVU@example.com:4321'' @ [CHR 0x0A]"

definition sharedNode :: Node where
  "sharedNode =
     Mapping [(''$type'', Scalar ''shadowsocks''), (''endpoint'', Scalar ''example.com:80''),
       (''cipher'', Scalar ''chacha20-ietf-poly1305''), (''secret'', Scalar ''SECRET'')]"

definition modernDocument :: string where
  "modernDocument =
     joinLines [''transport:'', ''  $type: tcpudp'', ''  tcp: &shared'',
       ''    $type: shadowsocks'', ''    endpoint: example.com:80'',
       ''    cipher: chacha20-ietf-poly1305'', ''    secret: SECRET'', ''  udp: *shared'']"

definition modernNode :: Node where
  "modernNode =
     Mapping [(''$type'', Scalar ''tcpudp''), (''tcp'', Anchored ''shared'' sharedNode),
       (''udp'', Alias ''shared'')]"

definition modernText :: string where
  "modernText =
     joinLines [''$type: tcpudp'', ''tcp: &shared'', ''    $type: shadowsocks'',
       ''    endpoint: example.com:80'', ''    cipher: chacha20-ietf-poly1305'',
       ''    secret: SECRET'', ''udp: *shared'']"

definition exampleUnmarshalRequest :: "string \<Rightarrow> string + Node parseTunnelConfigRequest" where
  "exampleUnmarshalRequest input =
     (if input = ''error: {message: Unauthorized, details: Account expired}'' then
        Inr \<lparr>parseTunnelConfigRequest.Transport = Zero,
             parseTunnelConfigRequest.Error =
               Some \<lparr>providerError.Message = ''Unauthorized'',
                     providerError.Details = ''Account expired''\<rparr>\<rparr>
      else if input = ''error: {details: Account expired}'' then
        Inr \<lparr>parseTunnelConfigRequest.Transport = Zero,
             parseTunnelConfigRequest.Error =
               Some \<lparr>providerError.Message = [],
                     providerError.Details = ''Account expired''\<rparr>\<rparr>
      else if input = ''error: {}'' then
        Inr \<lparr>parseTunnelConfigRequest.Transport = Zero,
             parseTunnelConfigRequest.Error =
               Some \<lparr>providerError.Message = [], providerError.Details = []\<rparr>\<rparr>
      else if input = legacyJson \<or> input = ''unrelated: 1'' \<or> input = ''server_port: -1'' then
        Inr \<lparr>parseTunnelConfigRequest.Transport = Zero, parseTunnelConfigRequest.Error = None\<rparr>
      else if input = TrimSpace modernDocument then
        Inr \<lparr>parseTunnelConfigRequest.Transport = modernNode, parseTunnelConfigRequest.Error = None\<rparr>
      else Inl ''yaml: line 1: did not find expected node content'')"

definition exampleUnmarshalLegacy :: "string \<Rightarrow> string + legacyShadowsocksConfig" where
  "exampleUnmarshalLegacy input =
     (if input = legacyJson then Inr legacyExample
      else if input = ''unrelated: 1'' then Inr legacyZero
      else Inl ''yaml: unmarshal errors:'')"

definition exampleNewClient :: "string \<Rightarrow> PlatformError + Client" where
  "exampleNewClient text =
     (if text = legacyText \<or> text = ''ss://Y2hhY2hhMjA6U0VDUkVU@example.com:4321'' then
        Inr \<lparr>sd_FirstHop = ''example.com:4321'', pl_FirstHop = ''example.com:4321''\<rparr>
      else if text = modernText then
        Inr \<lparr>sd_FirstHop = ''example.com:80'', pl_FirstHop = ''example.com:80''\<rparr>
      else Inl \<lparr>Code = InvalidConfig, Message = ''invalid config'', Details = None\<rparr>)"

text \<open>JSON text of a string, with the escapes that the examples need.\<close>

fun jsonEscape :: "string \<Rightarrow> string" where
  "jsonEscape [] = []"
| "jsonEscape (c # cs) =
     (if c = CHR 0x22 \<or> c = CHR 0x5C then [CHR 0x5C, c]
      else if c = CHR 0x0A then [CHR 0x5C, CHR ''n'']
      else if c = CHR ''&'' then CHR 0x5C # ''u0026''
      else [c]) @ jsonEscape cs"

definition exampleJsonMarshal :: "tunnelConfigJson \<Rightarrow> string + string" where
  \<open>exampleJsonMarshal r =
     Inr (''{"firstHop":"'' @ jsonEscape (FirstHop r) @ ''","transport":"'' @
          jsonEscape (tunnelConfigJson.Transport r) @ ''"}'')\<close>

definition exampleLibrary :: "Node library" where
  "exampleLibrary =
     \<lparr>yamlUnmarshalRequest = exampleUnmarshalRequest,
      yamlUnmarshalLegacy = exampleUnmarshalLegacy,
      yamlMarshalLegacy = (\<lambda>c. if c = legacyExample then Inr legacyText
                                 else if c = legacyZero then Inr legacyZeroText
                                 else Inl ''yaml: cannot marshal''),
      yamlMarshalNode = (\<lambda>n. if n = modernNode then Inr modernText
                               else Inl ''yaml: cannot marshal''),
      IsZero = (\<lambda>n. n = Zero),
      NewClient = exampleNewClient,
      jsonMarshal = exampleJsonMarshal\<rparr>"

section \<open>How the function unfolds\<close>

lemma uri_text:
  assumes "inp = ReplaceAll (TrimSpace input) [CHR 0x5C, CHR ''/''] ''/''"
    and "HasPrefix inp ''ss://''"
  shows "transportConfigText L input = ([], Inr inp)"
  using assms(2) unfolding assms(1) by (simp add: transportConfigText_def)

lemma document_text:
  assumes "inp = ReplaceAll (TrimSpace input) [CHR 0x5C, CHR ''/''] ''/''"
    and "\<not> HasPrefix inp ''ss://''"
  shows "transportConfigText L input =
     (case yamlUnmarshalRequest L inp of
        Inl err \<Rightarrow>
          ([YamlUnmarshalRequest inp],
           Inl (failure InvalidConfig (''failed to parse: '' @ err)))
      | Inr tunnelConfig \<Rightarrow>
          (case parseTunnelConfigRequest.Error tunnelConfig of
             Some e \<Rightarrow> ([YamlUnmarshalRequest inp], Inl (providerFailure e))
           | None \<Rightarrow>
               if IsZero L (parseTunnelConfigRequest.Transport tunnelConfig) then
                 (case yamlUnmarshalLegacy L inp of
                    Inl err \<Rightarrow>
                      ([YamlUnmarshalRequest inp, YamlUnmarshalLegacy inp],
                       Inl (failure InvalidConfig (''failed to parse: '' @ err)))
                  | Inr legacyConfig \<Rightarrow>
                      normalized
                        [YamlUnmarshalRequest inp, YamlUnmarshalLegacy inp,
                         YamlMarshalLegacy legacyConfig]
                        (yamlMarshalLegacy L legacyConfig))
               else
                 normalized
                   [YamlUnmarshalRequest inp,
                    YamlMarshalNode (parseTunnelConfigRequest.Transport tunnelConfig)]
                   (yamlMarshalNode L (parseTunnelConfigRequest.Transport tunnelConfig))))"
  using assms(2) unfolding assms(1) by (simp add: transportConfigText_def Let_def)

lemma early_return:
  "transportConfigText L input = (calls, Inl r) \<Longrightarrow> doParseTunnelConfig L input = (calls, r)"
  by (simp add: doParseTunnelConfig_def)

lemma late_return:
  "transportConfigText L input = (calls, Inr text) \<Longrightarrow>
   doParseTunnelConfig L input = (calls @ fst (validate L text), snd (validate L text))"
  by (simp add: doParseTunnelConfig_def)

lemma provider_error_result:
  assumes "inp = ReplaceAll (TrimSpace input) [CHR 0x5C, CHR ''/''] ''/''"
    and "\<not> HasPrefix inp ''ss://''"
    and "yamlUnmarshalRequest L inp = Inr tunnelConfig"
    and "parseTunnelConfigRequest.Error tunnelConfig = Some e"
  shows "doParseTunnelConfig L input = ([YamlUnmarshalRequest inp], providerFailure e)"
proof -
  have "transportConfigText L input = ([YamlUnmarshalRequest inp], Inl (providerFailure e))"
    using assms by (simp add: document_text [of inp input L])
  then show ?thesis
    by (rule early_return)
qed

lemma example_provider_input:
  "ReplaceAll (TrimSpace ''error: {message: Unauthorized, details: Account expired}'')
     [CHR 0x5C, CHR ''/''] ''/'' = ''error: {message: Unauthorized, details: Account expired}''"
  by code_simp

lemma example_legacy_input:
  "ReplaceAll (TrimSpace legacyJson) [CHR 0x5C, CHR ''/''] ''/'' = legacyJson"
  by code_simp

lemma example_legacy_request:
  "exampleUnmarshalRequest legacyJson =
     Inr \<lparr>parseTunnelConfigRequest.Transport = Zero, parseTunnelConfigRequest.Error = None\<rparr>"
  by (simp add: exampleUnmarshalRequest_def legacyJson_def)

lemma example_legacy_text:
  "transportConfigText exampleLibrary legacyJson =
     ([YamlUnmarshalRequest legacyJson, YamlUnmarshalLegacy legacyJson,
       YamlMarshalLegacy legacyExample], Inr legacyText)"
proof -
  have "\<not> HasPrefix legacyJson ''ss://''"
    by (simp add: legacyJson_def HasPrefix_def)
  then show ?thesis
    by (simp add: document_text [of legacyJson] example_legacy_input example_legacy_request
        exampleLibrary_def exampleUnmarshalLegacy_def normalized_def)
qed

lemma validate_calls:
  "\<exists>rest. fst (validate L text) = NewClientCall text # rest \<and> (\<forall>c \<in> set rest. \<not> isYamlCall c)"
  by (simp add: validate_def split: sum.splits)

lemma parse_failure_result:
  assumes inp: "inp = ReplaceAll (TrimSpace input) [CHR 0x5C, CHR ''/''] ''/''"
    and document: "\<not> HasPrefix inp ''ss://''"
    and failed: "yamlUnmarshalRequest L inp = Inl err
         \<or> (\<exists>tunnelConfig. yamlUnmarshalRequest L inp = Inr tunnelConfig
               \<and> parseTunnelConfigRequest.Error tunnelConfig = None
               \<and> IsZero L (parseTunnelConfigRequest.Transport tunnelConfig)
               \<and> yamlUnmarshalLegacy L inp = Inl err)"
  shows "\<exists>calls. transportConfigText L input =
           (calls, Inl (failure InvalidConfig (''failed to parse: '' @ err)))
         \<and> (\<forall>c \<in> set calls. isYamlCall c)"
  using failed
proof (elim disjE exE conjE)
  assume "yamlUnmarshalRequest L inp = Inl err"
  then have "transportConfigText L input =
      ([YamlUnmarshalRequest inp], Inl (failure InvalidConfig (''failed to parse: '' @ err)))"
    by (simp add: document_text [OF inp document])
  then show ?thesis
    by simp
next
  fix tunnelConfig
  assume "yamlUnmarshalRequest L inp = Inr tunnelConfig"
    and "parseTunnelConfigRequest.Error tunnelConfig = None"
    and "IsZero L (parseTunnelConfigRequest.Transport tunnelConfig)"
    and "yamlUnmarshalLegacy L inp = Inl err"
  then have "transportConfigText L input =
      ([YamlUnmarshalRequest inp, YamlUnmarshalLegacy inp],
       Inl (failure InvalidConfig (''failed to parse: '' @ err)))"
    by (simp add: document_text [OF inp document])
  then show ?thesis
    by simp
qed

lemma example_uri_input:
  "ReplaceAll (TrimSpace uriInput) [CHR 0x5C, CHR ''/''] ''/'' =
     ''ss://Y2hhY2hhMjA6U0VDUkVU@example.com:4321''"
  by code_simp

lemma example_broken_request:
  "exampleUnmarshalRequest ''{'' = Inl ''yaml: line 1: did not find expected node content''"
  by code_simp

lemma example_details_request:
  "exampleUnmarshalRequest ''error: {details: Account expired}'' =
     Inr \<lparr>parseTunnelConfigRequest.Transport = Zero,
          parseTunnelConfigRequest.Error =
            Some \<lparr>providerError.Message = [],
                  providerError.Details = ''Account expired''\<rparr>\<rparr>"
  by code_simp

lemma example_broken_input:
  "ReplaceAll (TrimSpace ''{'') [CHR 0x5C, CHR ''/''] ''/'' = ''{''"
  by code_simp

lemma example_details_input:
  "ReplaceAll (TrimSpace ''error: {details: Account expired}'') [CHR 0x5C, CHR ''/''] ''/'' =
     ''error: {details: Account expired}''"
  by code_simp

lemma early_shapes:
  assumes inp: "inp = ReplaceAll (TrimSpace input) [CHR 0x5C, CHR ''/''] ''/''"
    and early: "transportConfigText L input = (calls, Inl r)"
  shows "(\<exists>m. r = failure InvalidConfig (''failed to parse: '' @ m))
       \<or> (\<exists>m. r = failure InvalidConfig (''failed normalize config: '' @ m))
       \<or> (\<exists>tunnelConfig e. yamlUnmarshalRequest L inp = Inr tunnelConfig
             \<and> parseTunnelConfigRequest.Error tunnelConfig = Some e \<and> r = providerFailure e)"
  using early unfolding inp
  by (auto simp: transportConfigText_def Let_def normalized_def
      split: if_splits sum.splits option.splits)

lemma validate_shapes:
  "(\<exists>e. NewClient L t = Inl e \<and> snd (validate L t) = \<lparr>Value = [], Error = Some e\<rparr>)
   \<or> (\<exists>m. snd (validate L t) =
          failure InternalError (''failed to serialize JSON response: '' @ m))
   \<or> (\<exists>r bytes. jsonMarshal L r = Inr bytes
          \<and> snd (validate L t) = \<lparr>Value = bytes, Error = None\<rparr>)"
  by (auto simp: validate_def split: sum.splits)

lemma example_unrelated_input:
  "ReplaceAll (TrimSpace ''unrelated: 1'') [CHR 0x5C, CHR ''/''] ''/'' = ''unrelated: 1''"
  by code_simp

lemma example_unrelated_request:
  "exampleUnmarshalRequest ''unrelated: 1'' =
     Inr \<lparr>parseTunnelConfigRequest.Transport = Zero, parseTunnelConfigRequest.Error = None\<rparr>"
  by code_simp

lemma example_unrelated_legacy:
  "exampleUnmarshalLegacy ''unrelated: 1'' =
     Inr \<lparr>Server = [], ServerPort = 0, Method = [], Password = [], Prefix = []\<rparr>"
  by code_simp

lemma example_zero_client:
  "exampleNewClient legacyZeroText =
     Inl \<lparr>Code = InvalidConfig, Message = ''invalid config'', Details = None\<rparr>"
  by (simp add: exampleNewClient_def legacyZeroText_def legacyText_def modernText_def
      joinLines_def)

lemma example_empty_error_input:
  "ReplaceAll (TrimSpace ''error: {}'') [CHR 0x5C, CHR ''/''] ''/'' = ''error: {}''"
  by code_simp

lemma example_empty_error_request:
  "exampleUnmarshalRequest ''error: {}'' =
     Inr \<lparr>parseTunnelConfigRequest.Transport = Zero,
          parseTunnelConfigRequest.Error =
            Some \<lparr>providerError.Message = [], providerError.Details = []\<rparr>\<rparr>"
  by code_simp

section \<open>The claims\<close>

text \<open>
  Claim C1. Whenever the transport text is reached and the client is built from it,
  the function returns a success value: the serialized response, whose \<open>firstHop\<close> is
  the shared address exactly when the stream and the packet first hop are both
  non-empty and equal, and the empty string when they differ or one of them is empty,
  and whose \<open>transport\<close> is the transport text in every case. (\<open>json.Marshal\<close> is a
  collaborator here; it succeeds on every value of a struct of two strings.)
\<close>

theorem first_hop_reported:
  assumes reached: "transportConfigText L input = (calls, Inr text)"
    and client: "NewClient L text = Inr client"
    and r: "r = \<lparr>FirstHop =
                  (if sd_FirstHop client \<noteq> [] \<and> pl_FirstHop client \<noteq> []
                      \<and> sd_FirstHop client = pl_FirstHop client
                   then sd_FirstHop client else []),
                Transport = text\<rparr>"
    and bytes: "jsonMarshal L r = Inr bytes"
  shows "doParseTunnelConfig L input =
           (calls @ [NewClientCall text, JsonMarshal r], \<lparr>Value = bytes, Error = None\<rparr>)"
proof -
  have "response client text = r"
    unfolding response_def r by auto
  with client bytes have "validate L text =
      ([NewClientCall text, JsonMarshal r], \<lparr>Value = bytes, Error = None\<rparr>)"
    by (simp add: validate_def)
  with late_return [OF reached] show ?thesis
    by simp
qed



theorem first_hop_reported_witness:
  "doParseTunnelConfig exampleLibrary legacyJson =
     ([YamlUnmarshalRequest legacyJson, YamlUnmarshalLegacy legacyJson,
       YamlMarshalLegacy legacyExample, NewClientCall legacyText,
       JsonMarshal \<lparr>FirstHop = ''example.com:4321'', Transport = legacyText\<rparr>],
      \<lparr>Value = legacyValue, Error = None\<rparr>)"
proof -
  have bytes: "exampleJsonMarshal \<lparr>FirstHop = ''example.com:4321'', Transport = legacyText\<rparr>
      = Inr legacyValue"
    by (simp add: exampleJsonMarshal_def legacyText_def legacyValue_def joinLines_def)
  show ?thesis
    using first_hop_reported
      [of exampleLibrary legacyJson
          "[YamlUnmarshalRequest legacyJson, YamlUnmarshalLegacy legacyJson,
            YamlMarshalLegacy legacyExample]"
          legacyText
          "\<lparr>sd_FirstHop = ''example.com:4321'', pl_FirstHop = ''example.com:4321''\<rparr>"
          "\<lparr>FirstHop = ''example.com:4321'', Transport = legacyText\<rparr>" legacyValue]
      example_legacy_text bytes
    by (simp add: exampleLibrary_def exampleNewClient_def)
qed

text \<open>
  Claim C2. When the decoded document carries an error object, the function returns a
  \<open>PlatformError\<close> with code \<open>ProviderError\<close> whose message is the error's message as
  decoded, whose details map has the single entry \<open>"details"\<close> with the error's details
  when they are not empty and is absent (nil) when they are empty; the only
  collaborator called is the decoder, so no transport is constructed.
\<close>

theorem provider_error_reported:
  assumes inp: "inp = ReplaceAll (TrimSpace input) [CHR 0x5C, CHR ''/''] ''/''"
    and document: "\<not> HasPrefix inp ''ss://''"
    and parsed: "yamlUnmarshalRequest L inp = Inr tunnelConfig"
    and err: "parseTunnelConfigRequest.Error tunnelConfig = Some e"
  shows "doParseTunnelConfig L input =
           ([YamlUnmarshalRequest inp],
            \<lparr>Value = [],
             Error = Some \<lparr>Code = ProviderError, Message = providerError.Message e,
               Details = (if providerError.Details e = [] then None
                          else Some [''details'' \<mapsto> AnyString (providerError.Details e)])\<rparr>\<rparr>)
         \<and> (providerError.Details e \<noteq> [] \<longrightarrow>
              dom [''details'' \<mapsto> AnyString (providerError.Details e)] = {''details''})
         \<and> (\<forall>t. NewClientCall t \<notin> set (fst (doParseTunnelConfig L input)))"
proof -
  have "doParseTunnelConfig L input = ([YamlUnmarshalRequest inp], providerFailure e)"
    using inp document parsed err by (rule provider_error_result)
  then show ?thesis
    by (simp add: providerFailure_def)
qed

theorem provider_error_reported_witness:
  "doParseTunnelConfig exampleLibrary
      ''error: {message: Unauthorized, details: Account expired}'' =
     ([YamlUnmarshalRequest ''error: {message: Unauthorized, details: Account expired}''],
      \<lparr>Value = [],
       Error = Some \<lparr>Code = ProviderError, Message = ''Unauthorized'',
         Details = Some [''details'' \<mapsto> AnyString ''Account expired'']\<rparr>\<rparr>)"
  using provider_error_reported
    [of "''error: {message: Unauthorized, details: Account expired}''"
        "''error: {message: Unauthorized, details: Account expired}''" exampleLibrary
        "\<lparr>parseTunnelConfigRequest.Transport = Zero,
          parseTunnelConfigRequest.Error =
            Some \<lparr>providerError.Message = ''Unauthorized'',
                  providerError.Details = ''Account expired''\<rparr>\<rparr>"
        "\<lparr>providerError.Message = ''Unauthorized'',
          providerError.Details = ''Account expired''\<rparr>"]
  by (simp add: example_provider_input exampleLibrary_def exampleUnmarshalRequest_def
      HasPrefix_def)

text \<open>
  Claim C6. When the input, trimmed and with every \<open>\/\<close> replaced by \<open>/\<close>, starts
  with \<open>ss://\<close>, the transport text is that trimmed and unescaped input, no call
  precedes the construction of the transport (the first call is \<open>NewClient\<close> on this
  text), and no call to the YAML library is made at all.
\<close>

theorem uri_form_passes_verbatim:
  assumes inp: "inp = ReplaceAll (TrimSpace input) [CHR 0x5C, CHR ''/''] ''/''"
    and uri: "HasPrefix inp ''ss://''"
  shows "transportConfigText L input = ([], Inr inp)
         \<and> (\<exists>rest. fst (doParseTunnelConfig L input) = NewClientCall inp # rest)
         \<and> (\<forall>c \<in> set (fst (doParseTunnelConfig L input)). \<not> isYamlCall c)"
proof -
  have reached: "transportConfigText L input = ([], Inr inp)"
    using inp uri by (rule uri_text)
  then have calls: "fst (doParseTunnelConfig L input) = fst (validate L inp)"
    by (simp add: late_return)
  obtain rest where "fst (validate L inp) = NewClientCall inp # rest"
    and "\<forall>c \<in> set rest. \<not> isYamlCall c"
    using validate_calls by blast
  with reached calls show ?thesis
    by simp
qed

theorem uri_form_passes_verbatim_witness:
  "HasPrefix ''ss://Y2hhY2hhMjA6U0VDUkVU@example.com:4321'' ''ss://''
   \<and> transportConfigText exampleLibrary uriInput =
       ([], Inr ''ss://Y2hhY2hhMjA6U0VDUkVU@example.com:4321'')
   \<and> fst (doParseTunnelConfig exampleLibrary uriInput) =
       [NewClientCall ''ss://Y2hhY2hhMjA6U0VDUkVU@example.com:4321'',
        JsonMarshal \<lparr>FirstHop = ''example.com:4321'',
          Transport = ''ss://Y2hhY2hhMjA6U0VDUkVU@example.com:4321''\<rparr>]"
proof -
  have uri: "HasPrefix ''ss://Y2hhY2hhMjA6U0VDUkVU@example.com:4321'' ''ss://''"
    by (simp add: HasPrefix_def)
  have "transportConfigText exampleLibrary uriInput =
      ([], Inr ''ss://Y2hhY2hhMjA6U0VDUkVU@example.com:4321'')"
    using uri_form_passes_verbatim
      [of "''ss://Y2hhY2hhMjA6U0VDUkVU@example.com:4321''" uriInput exampleLibrary]
      example_uri_input uri
    by simp
  then show ?thesis
    using uri
    by (simp add: late_return validate_def response_def exampleLibrary_def
        exampleNewClient_def)
qed


text \<open>
  Claim C7. When the input is not a link and the YAML library fails to decode it (into
  the request, lines 65 to 72, or into the legacy config, lines 91 to 98), the result
  holds no value and the error \<open>InvalidConfig\<close> whose message is
  \<open>failed to parse: \<close> followed by the library's error text; no transport is
  constructed.
\<close>

theorem parse_failure_invalid_config:
  assumes inp: "inp = ReplaceAll (TrimSpace input) [CHR 0x5C, CHR ''/''] ''/''"
    and document: "\<not> HasPrefix inp ''ss://''"
    and failed: "yamlUnmarshalRequest L inp = Inl err
         \<or> (\<exists>tunnelConfig. yamlUnmarshalRequest L inp = Inr tunnelConfig
               \<and> parseTunnelConfigRequest.Error tunnelConfig = None
               \<and> IsZero L (parseTunnelConfigRequest.Transport tunnelConfig)
               \<and> yamlUnmarshalLegacy L inp = Inl err)"
  shows "snd (doParseTunnelConfig L input) =
           \<lparr>Value = [],
            Error = Some \<lparr>Code = InvalidConfig, Message = ''failed to parse: '' @ err,
              Details = None\<rparr>\<rparr>
         \<and> (\<forall>t. NewClientCall t \<notin> set (fst (doParseTunnelConfig L input)))"
proof -
  obtain calls where early: "transportConfigText L input =
      (calls, Inl (failure InvalidConfig (''failed to parse: '' @ err)))"
    and yaml: "\<forall>c \<in> set calls. isYamlCall c"
    using parse_failure_result [OF inp document failed] by blast
  have "doParseTunnelConfig L input =
      (calls, failure InvalidConfig (''failed to parse: '' @ err))"
    using early by (rule early_return)
  moreover have "NewClientCall t \<notin> set calls" for t
    using yaml by auto
  ultimately show ?thesis
    by (simp add: failure_def)
qed

theorem parse_failure_invalid_config_witness:
  "doParseTunnelConfig exampleLibrary ''{'' =
     ([YamlUnmarshalRequest ''{''],
      \<lparr>Value = [],
       Error = Some \<lparr>Code = InvalidConfig,
         Message = ''failed to parse: yaml: line 1: did not find expected node content'',
         Details = None\<rparr>\<rparr>)"
proof -
  have "transportConfigText exampleLibrary ''{'' =
      ([YamlUnmarshalRequest ''{''],
       Inl (failure InvalidConfig
         (''failed to parse: '' @ ''yaml: line 1: did not find expected node content'')))"
    using document_text [of "''{''" "''{''" exampleLibrary]
    by (simp add: example_broken_input HasPrefix_def exampleLibrary_def
        example_broken_request)
  then have calls: "fst (doParseTunnelConfig exampleLibrary ''{'') = [YamlUnmarshalRequest ''{'']"
    by (simp add: early_return)
  have "snd (doParseTunnelConfig exampleLibrary ''{'') =
      \<lparr>Value = [],
       Error = Some \<lparr>Code = InvalidConfig,
         Message = ''failed to parse: yaml: line 1: did not find expected node content'',
         Details = None\<rparr>\<rparr>"
    using parse_failure_invalid_config
      [of "''{''" "''{''" exampleLibrary
          "''yaml: line 1: did not find expected node content''"]
    by (simp add: example_broken_input HasPrefix_def exampleLibrary_def
        example_broken_request)
  with calls show ?thesis
    by (simp add: prod_eq_iff)
qed

text \<open>
  Claim C10. When the decoded request carries an error object, the result is a
  \<open>ProviderError\<close> and the only call made is the decoding, whatever the message: when
  the message is absent or empty, the returned message is the empty string.
\<close>

theorem provider_error_without_message:
  assumes inp: "inp = ReplaceAll (TrimSpace input) [CHR 0x5C, CHR ''/''] ''/''"
    and document: "\<not> HasPrefix inp ''ss://''"
    and parsed: "yamlUnmarshalRequest L inp = Inr tunnelConfig"
    and err: "parseTunnelConfigRequest.Error tunnelConfig = Some e"
    and empty: "providerError.Message e = []"
  shows "(\<exists>details. snd (doParseTunnelConfig L input) =
            \<lparr>Value = [],
             Error = Some \<lparr>Code = ProviderError, Message = [], Details = details\<rparr>\<rparr>)
         \<and> fst (doParseTunnelConfig L input) = [YamlUnmarshalRequest inp]"
proof -
  have "doParseTunnelConfig L input = ([YamlUnmarshalRequest inp], providerFailure e)"
    using inp document parsed err by (rule provider_error_result)
  with empty show ?thesis
    by (simp add: providerFailure_def)
qed

theorem provider_error_without_message_witness:
  "doParseTunnelConfig exampleLibrary ''error: {details: Account expired}'' =
     ([YamlUnmarshalRequest ''error: {details: Account expired}''],
      \<lparr>Value = [],
       Error = Some \<lparr>Code = ProviderError, Message = [],
         Details = Some [''details'' \<mapsto> AnyString ''Account expired'']\<rparr>\<rparr>)"
proof -
  have "fst (doParseTunnelConfig exampleLibrary ''error: {details: Account expired}'') =
      [YamlUnmarshalRequest ''error: {details: Account expired}'']"
    using provider_error_without_message
      [of "''error: {details: Account expired}''" "''error: {details: Account expired}''"
          exampleLibrary
          "\<lparr>parseTunnelConfigRequest.Transport = Zero,
            parseTunnelConfigRequest.Error =
              Some \<lparr>providerError.Message = [],
                    providerError.Details = ''Account expired''\<rparr>\<rparr>"
          "\<lparr>providerError.Message = [], providerError.Details = ''Account expired''\<rparr>"]
    by (simp add: example_details_input HasPrefix_def exampleLibrary_def
        example_details_request)
  moreover have "transportConfigText exampleLibrary ''error: {details: Account expired}'' =
      ([YamlUnmarshalRequest ''error: {details: Account expired}''],
       Inl (providerFailure
         \<lparr>providerError.Message = [], providerError.Details = ''Account expired''\<rparr>))"
    using document_text
      [of "''error: {details: Account expired}''" "''error: {details: Account expired}''"
          exampleLibrary]
    by (simp add: example_details_input HasPrefix_def exampleLibrary_def
        example_details_request)
  then have "snd (doParseTunnelConfig exampleLibrary ''error: {details: Account expired}'') =
      \<lparr>Value = [],
       Error = Some \<lparr>Code = ProviderError, Message = [],
         Details = Some [''details'' \<mapsto> AnyString ''Account expired'']\<rparr>\<rparr>"
    by (simp add: early_return providerFailure_def)
  ultimately show ?thesis
    by (simp add: prod_eq_iff)
qed




text \<open>
  Claim C9. For every input and every behaviour of the collaborators, the result holds
  either a value and no error, or an error and no value (the empty string), never both
  and never neither. A value is the output of \<open>json.Marshal\<close>, which is never empty
  (the JSON text of an object has at least its braces).
\<close>

theorem exactly_one_of_value_and_error:
  assumes json: "\<And>r bytes. jsonMarshal L r = Inr bytes \<Longrightarrow> bytes \<noteq> []"
  shows "(Value (snd (doParseTunnelConfig L input)) \<noteq> []
          \<and> Error (snd (doParseTunnelConfig L input)) = None)
       \<or> (Value (snd (doParseTunnelConfig L input)) = []
          \<and> Error (snd (doParseTunnelConfig L input)) \<noteq> None)"
proof (cases "transportConfigText L input")
  case (Pair calls outcome)
  show ?thesis
  proof (cases outcome)
    case (Inl r)
    with Pair have result: "doParseTunnelConfig L input = (calls, r)"
      by (simp add: early_return)
    have "Value r = [] \<and> Error r \<noteq> None"
      using early_shapes [OF refl, of L input calls r] Pair Inl
      by (auto simp: failure_def providerFailure_def)
    with result show ?thesis
      by simp
  next
    case (Inr t)
    with Pair have result: "snd (doParseTunnelConfig L input) = snd (validate L t)"
      by (simp add: late_return)
    show ?thesis
      using validate_shapes [of L t] json unfolding result
      by (auto simp: failure_def)
  qed
qed

theorem exactly_one_of_value_and_error_witness:
  "Value (snd (doParseTunnelConfig exampleLibrary legacyJson)) = legacyValue
   \<and> legacyValue \<noteq> []
   \<and> Error (snd (doParseTunnelConfig exampleLibrary legacyJson)) = None"
proof -
  have json: "bytes \<noteq> []" if "jsonMarshal exampleLibrary r = Inr bytes" for r bytes
    using that by (auto simp: exampleLibrary_def exampleJsonMarshal_def)
  have "transportConfigText exampleLibrary legacyJson =
      ([YamlUnmarshalRequest legacyJson, YamlUnmarshalLegacy legacyJson,
        YamlMarshalLegacy legacyExample], Inr legacyText)"
    by (rule example_legacy_text)
  then have none: "Error (snd (doParseTunnelConfig exampleLibrary legacyJson)) = None"
    by (simp add: late_return validate_def exampleLibrary_def exampleNewClient_def
        exampleJsonMarshal_def)
  have "Value (snd (doParseTunnelConfig exampleLibrary legacyJson)) \<noteq> []"
    using exactly_one_of_value_and_error [of exampleLibrary legacyJson] json none
    by blast
  moreover have "Value (snd (doParseTunnelConfig exampleLibrary legacyJson)) = legacyValue"
    using example_legacy_text
    by (simp add: late_return validate_def response_def exampleLibrary_def exampleNewClient_def
        exampleJsonMarshal_def legacyText_def legacyValue_def joinLines_def)
  ultimately show ?thesis
    using none by simp
qed

text \<open>
  Claim C8, as stated: every error the function returns has a non-empty code and a
  non-empty message. The provider's message is passed through as it is, so the document
  \<open>error: {}\<close> yields a \<open>ProviderError\<close> with the empty message.
\<close>

theorem empty_message_counterexample:
  "Error (snd (doParseTunnelConfig exampleLibrary ''error: {}'')) =
     Some \<lparr>Code = ProviderError, Message = [], Details = None\<rparr>"
proof -
  have "transportConfigText exampleLibrary ''error: {}'' =
      ([YamlUnmarshalRequest ''error: {}''],
       Inl (providerFailure \<lparr>providerError.Message = [], providerError.Details = []\<rparr>))"
    using document_text [of "''error: {}''" "''error: {}''" exampleLibrary]
    by (simp add: example_empty_error_input HasPrefix_def exampleLibrary_def
        example_empty_error_request)
  then show ?thesis
    by (simp add: early_return providerFailure_def)
qed

text \<open>
  Claim C8, amended. Every error the function returns is one of: an \<open>InvalidConfig\<close>
  whose message starts with \<open>failed to parse: \<close> or \<open>failed normalize config: \<close>; an
  \<open>InternalError\<close> whose message starts with \<open>failed to serialize JSON response: \<close>;
  a \<open>ProviderError\<close> whose message is the message of the decoded error object, as it
  is; or the error \<open>NewClient\<close> returned, unchanged.
\<close>

theorem failure_shapes:
  assumes inp: "inp = ReplaceAll (TrimSpace input) [CHR 0x5C, CHR ''/''] ''/''"
    and failed: "Error (snd (doParseTunnelConfig L input)) = Some e"
  shows "(Code e = InvalidConfig
          \<and> (\<exists>m. PlatformError.Message e = ''failed to parse: '' @ m
                \<or> PlatformError.Message e = ''failed normalize config: '' @ m))
       \<or> (Code e = InternalError
          \<and> (\<exists>m. PlatformError.Message e = ''failed to serialize JSON response: '' @ m))
       \<or> (Code e = ProviderError
          \<and> (\<exists>tunnelConfig pe. yamlUnmarshalRequest L inp = Inr tunnelConfig
                \<and> parseTunnelConfigRequest.Error tunnelConfig = Some pe
                \<and> PlatformError.Message e = providerError.Message pe))
       \<or> (\<exists>t. NewClient L t = Inl e)"
proof (cases "transportConfigText L input")
  case (Pair calls outcome)
  show ?thesis
  proof (cases outcome)
    case (Inl r)
    with Pair have "doParseTunnelConfig L input = (calls, r)"
      by (simp add: early_return)
    with failed have "Error r = Some e"
      by simp
    then show ?thesis
      using early_shapes [OF inp, of L calls r] Pair Inl
      by (auto simp: failure_def providerFailure_def)
  next
    case (Inr t)
    with Pair have "snd (doParseTunnelConfig L input) = snd (validate L t)"
      by (simp add: late_return)
    with failed have "Error (snd (validate L t)) = Some e"
      by simp
    then show ?thesis
      using validate_shapes [of L t]
      by (auto simp: failure_def)
  qed
qed

theorem failure_shapes_witness:
  "Error (snd (doParseTunnelConfig exampleLibrary ''unrelated: 1'')) =
     Some \<lparr>Code = InvalidConfig, Message = ''invalid config'', Details = None\<rparr>
   \<and> (\<exists>t. NewClient exampleLibrary t =
          Inl \<lparr>Code = InvalidConfig, Message = ''invalid config'', Details = None\<rparr>)"
proof -
  have "legacyExample \<noteq> legacyZero"
    by (simp add: legacyExample_def legacyZero_def)
  then have "transportConfigText exampleLibrary ''unrelated: 1'' =
      ([YamlUnmarshalRequest ''unrelated: 1'', YamlUnmarshalLegacy ''unrelated: 1'',
        YamlMarshalLegacy legacyZero], Inr legacyZeroText)"
    using document_text [of "''unrelated: 1''" "''unrelated: 1''" exampleLibrary]
    by (simp add: example_unrelated_input HasPrefix_def exampleLibrary_def
        example_unrelated_request example_unrelated_legacy normalized_def legacyZero_def)
  then have failed: "Error (snd (doParseTunnelConfig exampleLibrary ''unrelated: 1'')) =
      Some \<lparr>Code = InvalidConfig, Message = ''invalid config'', Details = None\<rparr>"
    using example_zero_client
    by (simp add: late_return validate_def exampleLibrary_def)
  show ?thesis
    using failure_shapes [OF example_unrelated_input [symmetric] failed] failed
    by simp
qed

end
